theory Spec2Isabelle
  imports Main "HOL-Library.AList"
begin

section \<open>Python strings\<close>

text \<open>
  A Python \<open>str\<close> is a sequence of Unicode code points: a list of naturals. \<open>len\<close> is
  \<open>length\<close>. The whitespace test is Python's \<open>str.isspace\<close> on single characters (the
  test behind \<open>str.strip\<close> and the regular expression class \<open>\s\<close>). Digits, word
  characters and case conversion are the ASCII ones; a code point outside ASCII is a
  character that is neither a digit nor a letter.
\<close>

type_synonym ustr = "nat list"

definition cp :: "char \<Rightarrow> nat" where
  "cp c = of_char c"

definition str :: "string \<Rightarrow> ustr" where
  "str s = map cp s"

definition rupee :: nat where
  "rupee = 8377"

definition is_space :: "nat \<Rightarrow> bool" where
  "is_space c = ((9 \<le> c \<and> c \<le> 13) \<or> (28 \<le> c \<and> c \<le> 32) \<or> c = 133 \<or> c = 160
     \<or> c = 5760 \<or> (8192 \<le> c \<and> c \<le> 8202) \<or> c = 8232 \<or> c = 8233 \<or> c = 8239
     \<or> c = 8287 \<or> c = 12288)"

definition is_digit :: "nat \<Rightarrow> bool" where
  "is_digit c = (48 \<le> c \<and> c \<le> 57)"

definition is_word :: "nat \<Rightarrow> bool" where
  "is_word c = (is_digit c \<or> (65 \<le> c \<and> c \<le> 90) \<or> (97 \<le> c \<and> c \<le> 122) \<or> c = 95)"

definition lower_c :: "nat \<Rightarrow> nat" where
  "lower_c c = (if 65 \<le> c \<and> c \<le> 90 then c + 32 else c)"

definition upper_c :: "nat \<Rightarrow> nat" where
  "upper_c c = (if 97 \<le> c \<and> c \<le> 122 then c - 32 else c)"

definition lower :: "ustr \<Rightarrow> ustr" where
  "lower s = map lower_c s"

definition upper :: "ustr \<Rightarrow> ustr" where
  "upper s = map upper_c s"

definition strip :: "ustr \<Rightarrow> ustr" where
  "strip s = rev (dropWhile is_space (rev (dropWhile is_space s)))"

text \<open>\<open>s.isdigit()\<close>: a non-empty string of digits.\<close>

definition isdigit :: "ustr \<Rightarrow> bool" where
  "isdigit s = (s \<noteq> [] \<and> list_all is_digit s)"

text \<open>\<open>s.startswith(p)\<close> and \<open>sub in s\<close>.\<close>

fun startswith :: "ustr \<Rightarrow> ustr \<Rightarrow> bool" where
  "startswith s [] = True"
| "startswith [] (p # ps) = False"
| "startswith (c # cs) (p # ps) = (c = p \<and> startswith cs ps)"

fun substr_in :: "ustr \<Rightarrow> ustr \<Rightarrow> bool" where
  "substr_in sub [] = startswith [] sub"
| "substr_in sub (c # cs) = (startswith (c # cs) sub \<or> substr_in sub cs)"

text \<open>\<open>text.split('\n')\<close>: the empty string gives one empty line.\<close>

fun split_nl :: "ustr \<Rightarrow> ustr list" where
  "split_nl [] = [[]]"
| "split_nl (c # cs) =
     (if c = 10 then [] # split_nl cs
      else (case split_nl cs of [] \<Rightarrow> [[c]] | l # ls \<Rightarrow> (c # l) # ls))"

section \<open>Regular expressions\<close>

text \<open>
  The rules of the pattern catalog use character classes, literals, greedy repetition of
  a character class, optional groups, alternation, the anchors \<open>^\<close>, \<open>$\<close> and \<open>\b\<close>, and
  one lookahead. A matcher state is the character before the position (none at the start
  of the text) and the rest of the text. \<open>ends\<close> lists the states in which a match of the
  expression starting at a state can end, in the order in which a backtracking matcher
  tries them; the first one that lets the rest of the rule match is the matcher's answer.
\<close>

datatype citem = Ch nat | Rng nat nat | Digit | Word | Space | Dot

fun citem_has :: "citem \<Rightarrow> nat \<Rightarrow> bool" where
  "citem_has (Ch a) c = (c = a)"
| "citem_has (Rng a b) c = (a \<le> c \<and> c \<le> b)"
| "citem_has Digit c = is_digit c"
| "citem_has Word c = is_word c"
| "citem_has Space c = is_space c"
| "citem_has Dot c = (c \<noteq> 10)"

definition in_class :: "bool \<Rightarrow> citem list \<Rightarrow> nat \<Rightarrow> bool" where
  "in_class ic cl c =
     list_ex (\<lambda>i. citem_has i c \<or> (ic \<and> (citem_has i (lower_c c) \<or> citem_has i (upper_c c)))) cl"

datatype rx = Eps | Lit ustr | Cls "citem list" | Rep "citem list" nat "nat option"
  | Seq rx rx | Alt rx rx | Opt rx | Bol | Eol | WordB | Look rx

type_synonym mstate = "nat option \<times> ustr"

fun lit_match :: "bool \<Rightarrow> ustr \<Rightarrow> mstate \<Rightarrow> mstate list" where
  "lit_match ic [] st = [st]"
| "lit_match ic (p # ps) (prev, []) = []"
| "lit_match ic (p # ps) (prev, c # cs) =
     (if c = p \<or> (ic \<and> lower_c c = lower_c p) then lit_match ic ps (Some c, cs) else [])"

text \<open>Greedy repetition: the longest run first, then shorter ones down to the minimum.\<close>

fun rep_match :: "bool \<Rightarrow> citem list \<Rightarrow> nat \<Rightarrow> nat option \<Rightarrow> nat \<Rightarrow> mstate \<Rightarrow> mstate list" where
  "rep_match ic cl lo hi k (prev, []) = (if lo \<le> k then [(prev, [])] else [])"
| "rep_match ic cl lo hi k (prev, c # cs) =
     (if in_class ic cl c \<and> (case hi of None \<Rightarrow> True | Some h \<Rightarrow> k < h)
      then rep_match ic cl lo hi (Suc k) (Some c, cs) else [])
     @ (if lo \<le> k then [(prev, c # cs)] else [])"

fun ends :: "bool \<Rightarrow> bool \<Rightarrow> rx \<Rightarrow> mstate \<Rightarrow> mstate list" where
  "ends ic ml Eps st = [st]"
| "ends ic ml (Lit s) st = lit_match ic s st"
| "ends ic ml (Cls cl) (prev, rest) =
     (case rest of [] \<Rightarrow> [] | c # cs \<Rightarrow> if in_class ic cl c then [(Some c, cs)] else [])"
| "ends ic ml (Rep cl lo hi) st = rep_match ic cl lo hi 0 st"
| "ends ic ml (Seq a b) st = concat (map (ends ic ml b) (ends ic ml a st))"
| "ends ic ml (Alt a b) st = ends ic ml a st @ ends ic ml b st"
| "ends ic ml (Opt a) st = ends ic ml a st @ [st]"
| "ends ic ml Bol (prev, rest) =
     (if prev = None \<or> (ml \<and> prev = Some 10) then [(prev, rest)] else [])"
| "ends ic ml Eol (prev, rest) =
     (if (case rest of [] \<Rightarrow> True | c # cs \<Rightarrow> c = 10 \<and> (ml \<or> cs = []))
      then [(prev, rest)] else [])"
| "ends ic ml WordB (prev, rest) =
     (if (case prev of None \<Rightarrow> False | Some p \<Rightarrow> is_word p)
         \<noteq> (case rest of [] \<Rightarrow> False | c # cs \<Rightarrow> is_word c)
      then [(prev, rest)] else [])"
| "ends ic ml (Look a) st = (if ends ic ml a st = [] then [] else [st])"

definition seqs :: "rx list \<Rightarrow> rx" where
  "seqs rs = foldr Seq rs Eps"

definition alts :: "rx list \<Rightarrow> rx" where
  "alts rs = (case rs of [] \<Rightarrow> Eps | _ \<Rightarrow> foldr Alt (butlast rs) (last rs))"

text \<open>
  A rule of the catalog is a regular expression with one capture group, which no rule
  puts under a quantifier or an alternative: what comes before the group, the group, what
  comes after it. \<open>NoGrp\<close> is a rule without a group. A match is the whole matched text,
  the text of group 1 when the rule has a group, and the state after the match.
\<close>

datatype pattern = Grp rx rx rx | NoGrp rx

type_synonym rmatch = "ustr \<times> ustr option \<times> mstate"

fun match_at :: "bool \<Rightarrow> bool \<Rightarrow> pattern \<Rightarrow> mstate \<Rightarrow> rmatch option" where
  "match_at ic ml (Grp pre g post) (prev, rest) =
     (case concat (map (\<lambda>s1. concat (map (\<lambda>s2. map (\<lambda>s3. (s1, s2, s3)) (ends ic ml post s2))
                                           (ends ic ml g s1)))
                       (ends ic ml pre (prev, rest))) of
        [] \<Rightarrow> None
      | (s1, s2, s3) # _ \<Rightarrow>
          Some (take (length rest - length (snd s3)) rest,
                Some (take (length (snd s1) - length (snd s2)) (snd s1)), s3))"
| "match_at ic ml (NoGrp r) (prev, rest) =
     (case ends ic ml r (prev, rest) of
        [] \<Rightarrow> None
      | s # _ \<Rightarrow> Some (take (length rest - length (snd s)) rest, None, s))"

text \<open>\<open>re.search\<close> from a state: the leftmost start at which the rule matches.\<close>

fun search_from :: "bool \<Rightarrow> bool \<Rightarrow> pattern \<Rightarrow> mstate \<Rightarrow> rmatch option" where
  "search_from ic ml p (prev, []) = match_at ic ml p (prev, [])"
| "search_from ic ml p (prev, c # cs) =
     (case match_at ic ml p (prev, c # cs) of
        Some m \<Rightarrow> Some m
      | None \<Rightarrow> search_from ic ml p (Some c, cs))"

definition re_search :: "bool \<Rightarrow> bool \<Rightarrow> pattern \<Rightarrow> ustr \<Rightarrow> rmatch option" where
  "re_search ic ml p text = search_from ic ml p (None, text)"

definition re_match :: "bool \<Rightarrow> bool \<Rightarrow> pattern \<Rightarrow> ustr \<Rightarrow> rmatch option" where
  "re_match ic ml p text = match_at ic ml p (None, text)"

text \<open>
  \<open>re.findall\<close> for a rule with one group: group 1 of the successive matches, each
  search starting where the match before ended (\<open>k\<close> counts the characters of that match
  still to pass; after an empty match the search moves on by one character).
\<close>

fun findall_from :: "bool \<Rightarrow> bool \<Rightarrow> pattern \<Rightarrow> nat \<Rightarrow> mstate \<Rightarrow> ustr list" where
  "findall_from ic ml p k (prev, []) =
     (if 0 < k then []
      else (case match_at ic ml p (prev, []) of
              None \<Rightarrow> []
            | Some (g0, g1, e) \<Rightarrow> [case g1 of Some g \<Rightarrow> g | None \<Rightarrow> g0]))"
| "findall_from ic ml p k (prev, c # cs) =
     (if 0 < k then findall_from ic ml p (k - 1) (Some c, cs)
      else (case match_at ic ml p (prev, c # cs) of
              None \<Rightarrow> findall_from ic ml p 0 (Some c, cs)
            | Some (g0, g1, e) \<Rightarrow>
                (case g1 of Some g \<Rightarrow> g | None \<Rightarrow> g0)
                # findall_from ic ml p (length g0 - 1) (Some c, cs)))"

definition re_findall :: "bool \<Rightarrow> bool \<Rightarrow> pattern \<Rightarrow> ustr \<Rightarrow> ustr list" where
  "re_findall ic ml p text = findall_from ic ml p 0 (None, text)"

section \<open>Pattern catalog: UPI screenshots\<close>

text \<open>Pieces that many rules share.\<close>

definition ws :: rx where \<comment> \<open>\<open>\s*\<close>\<close>
  "ws = Rep [Space] 0 None"

definition ws1 :: rx where \<comment> \<open>\<open>\s+\<close>\<close>
  "ws1 = Rep [Space] 1 None"

definition sep_opt :: rx where \<comment> \<open>\<open>[:\-]?\<close>\<close>
  "sep_opt = Opt (Cls [Ch (cp CHR '':''), Ch (cp CHR ''-'')])"

definition dot_opt :: rx where \<comment> \<open>\<open>\.?\<close>\<close>
  "dot_opt = Opt (Lit (str ''.''))"

definition rs_cls :: rx where \<comment> \<open>the class of the rupee sign (U+20B9), \<open>R\<close> and \<open>s\<close>\<close>
  "rs_cls = Cls [Ch rupee, Ch (cp CHR ''R''), Ch (cp CHR ''s'')]"

definition amt :: rx where \<comment> \<open>\<open>[\d,]+\.?\d{0,2}\<close>\<close>
  "amt = seqs [Rep [Digit, Ch (cp CHR '','')] 1 None, dot_opt, Rep [Digit] 0 (Some 2)]"

definition lit :: "string \<Rightarrow> rx" where
  "lit s = Lit (str s)"

definition digits :: "nat \<Rightarrow> nat option \<Rightarrow> rx" where \<comment> \<open>\<open>\d{lo,hi}\<close>\<close>
  "digits lo hi = Rep [Digit] lo hi"

definition letters :: "citem list" where \<comment> \<open>\<open>[a-zA-Z]\<close>\<close>
  "letters = [Rng (cp CHR ''a'') (cp CHR ''z''), Rng (cp CHR ''A'') (cp CHR ''Z'')]"

definition vpa :: rx where \<comment> \<open>\<open>[a-zA-Z0-9\.\-_]+@[a-zA-Z]+\<close>\<close>
  "vpa = seqs [Rep (letters @ [Rng (cp CHR ''0'') (cp CHR ''9''), Ch (cp CHR ''.''),
                               Ch (cp CHR ''-''), Ch (cp CHR ''_'')]) 1 None,
               lit ''@'', Rep letters 1 None]"

definition date_sep :: rx where \<comment> \<open>\<open>[/-]\<close>\<close>
  "date_sep = Cls [Ch (cp CHR ''/''), Ch (cp CHR ''-'')]"

definition patterns :: "(string \<times> pattern list) list" where
  "patterns = [
    (''amount'', [
      Grp (seqs [rs_cls, dot_opt, ws]) amt Eps,
      Grp (seqs [lit ''Amount'', ws, sep_opt, ws, Opt rs_cls, dot_opt, ws]) amt Eps,
      Grp (seqs [lit ''Paid'', ws, Opt rs_cls, dot_opt, ws]) amt Eps,
      Grp (seqs [lit ''Total'', ws, lit ''Payable'', ws, sep_opt, ws, Opt rs_cls, dot_opt, ws])
          amt Eps,
      Grp (seqs [Bol, ws, rs_cls, dot_opt, ws]) amt (seqs [ws, Eol])]),
    (''upi_id'', [
      Grp Eps vpa Eps,
      Grp (seqs [lit ''UPI'', ws, lit ''ID'', ws, sep_opt, ws]) vpa Eps,
      Grp (seqs [lit ''VPA'', ws, sep_opt, ws]) vpa Eps]),
    (''txn_id'', [
      Grp (seqs [lit ''Txn'', ws, lit ''ID'', ws, sep_opt, ws]) (Rep [Word] 1 None) Eps,
      Grp (seqs [lit ''Transaction'', ws, lit ''ID'', ws, sep_opt, ws]) (Rep [Word] 1 None) Eps,
      Grp (seqs [lit ''UPI'', ws, lit ''Ref'', ws, lit ''No'', ws, sep_opt, ws])
          (digits 1 None) Eps,
      Grp (seqs [lit ''Ref'', ws, lit ''No'', ws, sep_opt, ws]) (digits 1 None) Eps,
      Grp (seqs [lit ''UTR'', ws, sep_opt, ws]) (digits 1 None) Eps,
      Grp (seqs [lit ''Google'', ws, lit ''Transaction'', ws, lit ''ID'', ws, sep_opt, ws])
          (Rep [Word, Ch (cp CHR ''-'')] 1 None) Eps,
      Grp (seqs [lit ''Debited'', ws, lit ''from'', ws, sep_opt, ws]) (Rep [Word] 1 None) Eps]),
    (''date'', [
      Grp Eps (seqs [digits 1 (Some 2), ws1, Rep letters 3 None, ws1, digits 4 (Some 4)]) Eps,
      Grp Eps (seqs [digits 1 (Some 2), date_sep, digits 1 (Some 2), date_sep,
                     digits 2 (Some 4)]) Eps,
      Grp Eps (seqs [digits 4 (Some 4), lit ''-'', digits 2 (Some 2), lit ''-'',
                     digits 2 (Some 2)]) Eps]),
    (''time'', [
      Grp Eps (seqs [digits 1 (Some 2), lit '':'', digits 2 (Some 2), ws,
                     Cls [Ch (cp CHR ''A''), Ch (cp CHR ''P''), Ch (cp CHR ''a''),
                          Ch (cp CHR ''p'')],
                     Cls [Ch (cp CHR ''M''), Ch (cp CHR ''m'')]]) Eps,
      Grp Eps (seqs [digits 1 (Some 2), lit '':'', digits 2 (Some 2)]) Eps]),
    (''status'', [
      Grp Eps (alts [lit ''SUCCESS'', lit ''FAILED'', lit ''PENDING'', lit ''PROCESSING'',
                     lit ''COMPLETED'']) Eps,
      Grp (seqs [lit ''Payment'', ws])
          (alts [lit ''Successful'', lit ''Failed'', lit ''Pending'', lit ''Processing'',
                 lit ''Completed'']) Eps,
      Grp (seqs [lit ''Transaction'', ws])
          (alts [lit ''Successful'', lit ''Failed'', lit ''Pending'']) Eps])]"

section \<open>Common helpers\<close>

text \<open>
  \<open>_find_match\<close>: the rules of the group in declaration order, each searched with
  \<open>IGNORECASE\<close> and \<open>MULTILINE\<close>; the first rule that matches gives group 1 (the whole match
  for a rule without a group), stripped. The optional dictionary stands for the catalog
  of screenshots when it is absent or empty; a key that the dictionary lacks has no rules.
\<close>

fun first_match :: "pattern list \<Rightarrow> ustr \<Rightarrow> ustr" where
  "first_match [] text = []"
| "first_match (p # ps) text =
     (case re_search True True p text of
        Some (g0, g1, e) \<Rightarrow> (case g1 of Some g \<Rightarrow> strip g | None \<Rightarrow> strip g0)
      | None \<Rightarrow> first_match ps text)"

definition rules_of :: "string \<Rightarrow> (string \<times> pattern list) list option \<Rightarrow> pattern list" where
  "rules_of pattern_key pattern_dict =
     (case map_of (case pattern_dict of None \<Rightarrow> patterns
                   | Some d \<Rightarrow> if d = [] then patterns else d) pattern_key of
        None \<Rightarrow> [] | Some ps \<Rightarrow> ps)"

definition find_match :: "string \<Rightarrow> ustr \<Rightarrow> (string \<times> pattern list) list option \<Rightarrow> ustr" where
  "find_match pattern_key text pattern_dict = first_match (rules_of pattern_key pattern_dict) text"

text \<open>
  \<open>_clean_amount\<close>: \<open>re.sub(r'[^\d\.]', '', raw)\<close> keeps the digits and the dots;
  \<open>float\<close> accepts such a string when it has a digit and at most one dot, and raises
  \<open>ValueError\<close> otherwise.
\<close>

definition keep_digits_dots :: "ustr \<Rightarrow> ustr" where
  "keep_digits_dots raw = filter (\<lambda>c. is_digit c \<or> c = cp CHR ''.'') raw"

definition float_ok :: "ustr \<Rightarrow> bool" where
  "float_ok s = (list_all (\<lambda>c. is_digit c \<or> c = cp CHR ''.'') s
                 \<and> list_ex is_digit s \<and> length (filter (\<lambda>c. c = cp CHR ''.'') s) \<le> 1)"

definition clean_amount :: "ustr \<Rightarrow> ustr" where
  "clean_amount raw =
     (if raw = [] then []
      else (let clean = keep_digits_dots raw in if float_ok clean then clean else raw))"

section \<open>Pattern catalog: passbooks\<close>

definition sep :: rx where \<comment> \<open>\<open>[:\-]\<close>\<close>
  "sep = Cls [Ch (cp CHR '':''), Ch (cp CHR ''-'')]"

definition sep_dot_opt :: rx where \<comment> \<open>\<open>[:\-.]?\<close>\<close>
  "sep_dot_opt = Opt (Cls [Ch (cp CHR '':''), Ch (cp CHR ''-''), Ch (cp CHR ''.'')])"

definition ac :: rx where \<comment> \<open>\<open>A/?c\<close>\<close>
  "ac = seqs [lit ''A'', Opt (lit ''/''), lit ''c'']"

definition no_dot :: rx where \<comment> \<open>\<open>No\.?\<close>\<close>
  "no_dot = seqs [lit ''No'', dot_opt]"

definition any1 :: rx where \<comment> \<open>\<open>.+\<close>\<close>
  "any1 = Rep [Dot] 1 None"

definition upper_az :: citem where \<comment> \<open>\<open>A-Z\<close>\<close>
  "upper_az = Rng (cp CHR ''A'') (cp CHR ''Z'')"

definition lower_az :: citem where \<comment> \<open>\<open>a-z\<close>\<close>
  "lower_az = Rng (cp CHR ''a'') (cp CHR ''z'')"

definition acct_digits :: rx where \<comment> \<open>\<open>\d[\d\s\-]{6,}\d\<close>\<close>
  "acct_digits = seqs [Cls [Digit], Rep [Digit, Space, Ch (cp CHR ''-'')] 6 None, Cls [Digit]]"

definition mobile_digits :: rx where \<comment> \<open>\<open>\+?\d[\d\s\-]{8,}\d\<close>\<close>
  "mobile_digits = seqs [Opt (lit ''+''), Cls [Digit],
                         Rep [Digit, Space, Ch (cp CHR ''-'')] 8 None, Cls [Digit]]"

definition ifsc :: rx where \<comment> \<open>\<open>[A-Z]{4}0[A-Z0-9]{6}\<close>\<close>
  "ifsc = seqs [Rep [upper_az] 4 (Some 4), lit ''0'',
                Rep [upper_az, Rng (cp CHR ''0'') (cp CHR ''9'')] 6 (Some 6)]"

definition amt_frac :: rx where \<comment> \<open>\<open>[\d,]+\.\d{1,2}\<close>\<close>
  "amt_frac = seqs [Rep [Digit, Ch (cp CHR '','')] 1 None, lit ''.'', digits 1 (Some 2)]"

definition amt_int :: rx where \<comment> \<open>\<open>[\d,]+\<close>\<close>
  "amt_int = Rep [Digit, Ch (cp CHR '','')] 1 None"

definition money_pre :: rx where \<comment> \<open>\<open>\s*[:\-]?\s*[rupee Rs]?\.?\s*\<close>\<close>
  "money_pre = seqs [ws, sep_opt, ws, Opt rs_cls, dot_opt, ws]"

definition label_end :: rx where \<comment> \<open>\<open>\s*[:\-]?\s*\<close>\<close>
  "label_end = seqs [ws, sep_opt, ws]"

definition date_slash :: rx where \<comment> \<open>\<open>\d{1,2}[/-]\d{1,2}[/-]\d{2,4}\<close>\<close>
  "date_slash = seqs [digits 1 (Some 2), date_sep, digits 1 (Some 2), date_sep,
                      digits 2 (Some 4)]"

definition date_words :: rx where \<comment> \<open>\<open>\d{1,2}\s+[A-Za-z]{3,9}\s+\d{4}\<close>\<close>
  "date_words = seqs [digits 1 (Some 2), ws1, Rep [upper_az, lower_az] 3 (Some 9), ws1,
                      digits 4 (Some 4)]"

definition date_iso :: rx where \<comment> \<open>\<open>\d{4}-\d{2}-\d{2}\<close>\<close>
  "date_iso = seqs [digits 4 (Some 4), lit ''-'', digits 2 (Some 2), lit ''-'',
                    digits 2 (Some 2)]"

definition doo :: rx where
  \<comment> \<open>\<open>(?:Date\s*of\s*(?:Opening|Open)|Opened?\s*(?:on|Date)|DOO)\<close>\<close>
  "doo = alts [seqs [lit ''Date'', ws, lit ''of'', ws, alts [lit ''Opening'', lit ''Open'']],
               seqs [lit ''Opene'', Opt (lit ''d''), ws, alts [lit ''on'', lit ''Date'']],
               lit ''DOO'']"

definition bal_word :: rx where \<comment> \<open>\<open>Bal(?:ance)?\.?\<close>\<close>
  "bal_word = seqs [lit ''Bal'', Opt (lit ''ance''), dot_opt]"

definition mobile_label :: rx where
  \<comment> \<open>\<open>(?:Mobile|Phone|Contact|Mob\.?)\s*(?:No\.?|Number)?\<close>\<close>
  "mobile_label = seqs [alts [lit ''Mobile'', lit ''Phone'', lit ''Contact'',
                              seqs [lit ''Mob'', dot_opt]],
                        ws, Opt (alts [no_dot, lit ''Number''])]"

text \<open>Words separated by \<open>\s*\<close>.\<close>

fun sp_words :: "string list \<Rightarrow> rx" where
  "sp_words [] = Eps"
| "sp_words [w] = lit w"
| "sp_words (w # v # vs) = Seq (lit w) (Seq ws (sp_words (v # vs)))"

definition bank_names :: rx where
  "bank_names = alts [
     sp_words [''State'', ''Bank'', ''of'', ''India''], lit ''SBI'', sp_words [''HDFC'', ''Bank''],
     sp_words [''ICICI'', ''Bank''], sp_words [''Axis'', ''Bank''],
     seqs [lit ''Kotak'', ws, Opt (lit ''Mahindra'')], lit ''PNB'', lit ''BOB'',
     sp_words [''Bank'', ''of'', ''Baroda''],
     seqs [sp_words [''Union'', ''Bank''], Opt (seqs [ws, sp_words [''of'', ''India'']])],
     sp_words [''Canara'', ''Bank''], sp_words [''Indian'', ''Bank''], lit ''BOI'',
     sp_words [''Bank'', ''of'', ''India''], sp_words [''Central'', ''Bank''],
     sp_words [''IDBI'', ''Bank''], sp_words [''Yes'', ''Bank''],
     sp_words [''IndusInd'', ''Bank''], sp_words [''Federal'', ''Bank''],
     sp_words [''South'', ''Indian'', ''Bank''], sp_words [''Bandhan'', ''Bank''],
     sp_words [''RBL'', ''Bank''], sp_words [''UCO'', ''Bank''],
     sp_words [''Punjab'', ''National'', ''Bank''],
     sp_words [''Indian'', ''Overseas'', ''Bank''],
     sp_words [''Allahabad'', ''Bank''], sp_words [''Dena'', ''Bank''],
     sp_words [''Syndicate'', ''Bank''], sp_words [''Oriental'', ''Bank''],
     sp_words [''Corporation'', ''Bank''], sp_words [''Andhra'', ''Bank''],
     sp_words [''Vijaya'', ''Bank''],
     sp_words [''Karnataka'', ''Bank''], sp_words [''Karur'', ''Vysya''],
     sp_words [''City'', ''Union'', ''Bank''],
     sp_words [''Tamilnad'', ''Mercantile''], sp_words [''Dhanlaxmi'', ''Bank''],
     sp_words [''Lakshmi'', ''Vilas''],
     sp_words [''Nainital'', ''Bank''],
     seqs [lit ''Jammu'', ws, Opt (lit ''&''), ws, lit ''Kashmir'', ws, lit ''Bank''],
     sp_words [''Bank'', ''of'', ''Maharashtra''], sp_words [''IDFC'', ''First'']]"

definition passbook_patterns :: "(string \<times> pattern list) list" where
  "passbook_patterns = [
    (''account_holder'', [
      Grp (seqs [alts [lit ''Account'', ac], ws, lit ''Holder'', ws, lit ''Name'', label_end])
          any1 Eps,
      Grp (seqs [alts [lit ''Account'', ac], ws, lit ''Holder'', ws, sep, ws]) any1 Eps,
      Grp (seqs [lit ''Name'', ws, lit ''of'', ws, Opt (seqs [lit ''Account'', ws]),
                 lit ''Holder'', label_end]) any1 Eps,
      Grp (seqs [lit ''Holder'', ws, lit ''Name'', label_end]) any1 Eps,
      Grp (seqs [lit ''Customer'', ws, Opt (lit ''Name''), ws, sep, ws]) any1 Eps,
      Grp (seqs [alts [Bol, Lit [10]], ws, lit ''Name'', ws, sep, ws]) any1 Eps,
      Grp (seqs [alts [lit ''Mr'', lit ''Mrs'', lit ''Ms'', lit ''Shri'', lit ''Smt'', lit ''Sri''],
                 dot_opt, ws1])
          (seqs [Cls [upper_az, lower_az],
                 Rep [upper_az, lower_az, Ch (cp CHR '' ''), Ch (cp CHR ''.'')] 2 None]) Eps]),
    (''account_number'', [
      Grp (seqs [alts [ac, lit ''Account'', lit ''Acct''], ws,
                 alts [no_dot, lit ''Number'', lit ''Num'', lit ''#''], ws, sep_dot_opt, ws])
          acct_digits Eps,
      Grp (seqs [alts [lit ''Savings'', lit ''Current''], ws, alts [ac, lit ''Account''],
                 label_end]) acct_digits Eps,
      Grp (seqs [lit ''A'', Opt (lit ''/''), Cls [Ch (cp CHR ''C''), Ch (cp CHR ''c'')], ws,
                 sep_dot_opt, ws]) (digits 9 (Some 18)) Eps]),
    (''account_type'', [
      Grp WordB
          (alts [lit ''Savings'', lit ''Current'', sp_words [''Fixed'', ''Deposit''],
                 sp_words [''Recurring'', ''Deposit'']])
          (seqs [WordB, ws, Opt (alts [lit ''Account'', ac, lit ''Bank''])]),
      Grp WordB (alts [lit ''SB'', lit ''CA'', lit ''FD'', lit ''RD''])
          (seqs [WordB, ws, alts [lit ''Account'', ac]])]),
    (''bank_name'', [
      Grp (alts [Bol, Lit [10], Cls [Space]])
          (seqs [bank_names, Opt (seqs [ws, alts [lit ''Bank'', lit ''Ltd'', lit ''Limited'']])])
          (Look (alts [Cls [Space, Ch (cp CHR '',''), Ch (cp CHR ''.''), Ch 10], Eol]))]),
    (''branch_name'', [
      Grp (seqs [lit ''Branch'', ws, Opt (lit ''Name''), ws, sep, ws]) any1 Eps,
      Grp (seqs [lit ''Branch'', ws, Opt (lit ''Name''), label_end]) (Rep [Dot] 3 None) Eps]),
    (''ifsc_code'', [
      Grp (seqs [lit ''IFSC'', ws, Opt (lit ''Code''), label_end]) ifsc Eps,
      Grp (alts [Bol, Cls [Space, Ch (cp CHR '':'')]]) ifsc (alts [Cls [Space], Eol])]),
    (''micr_code'', [
      Grp (seqs [lit ''MICR'', ws, Opt (alts [lit ''Code'', no_dot]), label_end])
          (digits 9 (Some 9)) WordB]),
    (''cif_number'', [
      Grp (seqs [alts [lit ''CIF'',
                       seqs [lit ''CIF'', ws, alts [no_dot, lit ''Number'', lit ''ID'']]],
                 label_end]) (digits 6 None) Eps,
      Grp (seqs [lit ''Customer'', ws, alts [lit ''ID'', lit ''Id''], label_end])
          (digits 6 None) Eps]),
    (''nomination'', [
      Grp (seqs [lit ''Nominat'', alts [lit ''ion'', lit ''ee''], label_end]) any1 Eps]),
    (''joint_holder'', [
      Grp (seqs [lit ''Joint'', ws,
                 alts [lit ''Holder'', sp_words [''Account'', ''Holder''], lit ''Name''],
                 label_end]) any1 Eps]),
    (''address'', [
      Grp (seqs [alts [lit ''Address'', seqs [lit ''Addr'', dot_opt]], ws, sep, ws]) any1 Eps]),
    (''mobile_number'', [
      Grp (seqs [mobile_label, label_end]) mobile_digits Eps]),
    (''date_of_opening'', [
      Grp (seqs [doo, label_end]) date_slash Eps,
      Grp (seqs [doo, label_end]) date_words Eps]),
    (''credit_amount'', [
      Grp (seqs [alts [lit ''Credit'', lit ''Credited''], money_pre]) amt_frac Eps,
      Grp (seqs [alts [lit ''Credit'', lit ''Credited''], money_pre]) amt_int Eps,
      Grp (seqs [lit ''Deposit'', money_pre]) amt Eps,
      Grp (seqs [rs_cls, dot_opt, ws]) amt (seqs [ws, alts [lit ''Cr'', lit ''Credit'']])]),
    (''debit_amount'', [
      Grp (seqs [alts [lit ''Debit'', lit ''Debited'', lit ''Dr''], money_pre]) amt_frac Eps,
      Grp (seqs [alts [lit ''Debit'', lit ''Debited'', lit ''Dr''], money_pre]) amt_int Eps,
      Grp (seqs [alts [lit ''Withdrawal'', lit ''Withdraw''], money_pre]) amt Eps,
      Grp (seqs [rs_cls, dot_opt, ws]) amt (seqs [ws, alts [lit ''Dr'', lit ''Debit'']])]),
    (''balance'', [
      Grp (seqs [alts [lit ''Available'', seqs [lit ''Avl'', dot_opt]], ws, bal_word, money_pre])
          amt_frac Eps,
      Grp (seqs [alts [lit ''Available'', seqs [lit ''Avl'', dot_opt]], ws, bal_word, money_pre])
          amt_int Eps,
      Grp (seqs [lit ''Balance'', money_pre]) amt_frac Eps,
      Grp (seqs [lit ''Balance'', money_pre]) amt_int Eps]),
    (''opening_balance'', [
      Grp (seqs [alts [lit ''Opening'', seqs [lit ''Open'', Opt (lit ''ing''), dot_opt]], ws,
                 bal_word, money_pre]) amt Eps,
      Grp (seqs [lit ''Op'', dot_opt, ws, lit ''Bal'', dot_opt, money_pre]) amt Eps]),
    (''closing_balance'', [
      Grp (seqs [alts [lit ''Closing'', seqs [lit ''Clos'', Opt (lit ''ing''), dot_opt]], ws,
                 bal_word, money_pre]) amt Eps,
      Grp (seqs [lit ''Cl'', dot_opt, ws, lit ''Bal'', dot_opt, money_pre]) amt Eps]),
    (''cheque_number'', [
      Grp (seqs [alts [lit ''Cheque'', lit ''Chq'', lit ''CHQ''], ws,
                 Opt (alts [no_dot, lit ''Number'', lit ''#'']), label_end])
          (digits 6 None) Eps]),
    (''narration'', [
      Grp (seqs [alts [lit ''Narration'', lit ''Description'', lit ''Particulars'',
                       lit ''Remark'', lit ''Details''], label_end]) any1 Eps]),
    (''transaction_type'', [
      Grp WordB
          (alts [lit ''NEFT'', lit ''RTGS'', lit ''IMPS'', lit ''UPI'', lit ''ATM'', lit ''POS'',
                 lit ''ECS'', lit ''NACH'', lit ''CASH'', lit ''CHQ'', lit ''FT'',
                 lit ''TRANSFER''])
          WordB,
      Grp (seqs [alts [lit ''Mode'', lit ''Type'', lit ''Channel''], label_end])
          (alts [lit ''NEFT'', lit ''RTGS'', lit ''IMPS'', lit ''UPI'', lit ''ATM'', lit ''POS'',
                 lit ''ECS'', lit ''NACH'']) Eps]),
    (''date'', [
      Grp (seqs [alts [lit ''Date'', lit ''Dt'', sp_words [''Txn'', ''Date''],
                       sp_words [''Value'', ''Date'']], label_end]) date_slash Eps,
      Grp Eps date_words Eps,
      Grp Eps date_slash Eps,
      Grp Eps date_iso Eps]),
    (''reference_number'', [
      Grp (seqs [alts [lit ''Ref'', lit ''Reference''], ws,
                 Opt (alts [no_dot, lit ''Number'', lit ''ID'', lit ''#'']), label_end])
          (digits 8 None) Eps,
      Grp (seqs [lit ''UTR'', ws, Opt no_dot, label_end]) (digits 8 None) Eps,
      Grp (seqs [alts [lit ''Txn'', lit ''Transaction''], ws,
                 alts [no_dot, lit ''ID'', lit ''#''], label_end])
          (Rep [Word] 8 None) Eps])]"

text \<open>
  Field names with the rupee sign, as \<open>Balance (U+20B9)\<close>.
\<close>

definition rupee_key :: "string \<Rightarrow> ustr" where
  "rupee_key s = str s @ str '' ('' @ [rupee] @ str '')''"

text \<open>
  The multi-line rules: the label recognizer (searched in a line), the field, and the
  value recognizer (matched at the start of the next non-empty line) as what comes
  before group 1, group 1, and what comes after it.
\<close>

type_synonym label_rule = "rx \<times> ustr \<times> rx \<times> rx \<times> rx"

definition line_value :: "rx \<Rightarrow> rx \<times> rx \<times> rx" where \<comment> \<open>\<open>^\s*(g)\s*$\<close>\<close>
  "line_value g = (seqs [Bol, ws], g, seqs [ws, Eol])"

definition label_tail :: rx where \<comment> \<open>\<open>\s*[:\-]?\s*$\<close>\<close>
  "label_tail = seqs [ws, sep_opt, ws, Eol]"

definition passbook_multiline_labels :: "label_rule list" where
  "passbook_multiline_labels = [
    (seqs [alts [ac, lit ''Account'', lit ''Acct''], ws,
           alts [no_dot, lit ''Number'', lit ''Num'', lit ''#''], ws, sep_dot_opt, ws, Eol],
     str ''Account Number'', line_value acct_digits),
    (seqs [alts [lit ''Account'', ac], ws, alts [lit ''Holder'', sp_words [''Holder'', ''Name'']],
           label_tail],
     str ''Account Holder'', line_value (Rep [Dot] 2 None)),
    (seqs [lit ''Customer'', ws, Opt (lit ''Name''), label_tail],
     str ''Account Holder'', line_value (Rep [Dot] 2 None)),
    (seqs [lit ''Holder'', ws, Opt (lit ''Name''), label_tail],
     str ''Account Holder'', line_value (Rep [Dot] 2 None)),
    (seqs [Bol, ws, lit ''Name'', label_tail],
     str ''Account Holder'', line_value (seqs [Cls [upper_az, lower_az], Rep [Dot] 0 None])),
    (seqs [lit ''Branch'', ws, Opt (lit ''Name''), label_tail],
     str ''Branch Name'', line_value (Rep [Dot] 3 None)),
    (seqs [lit ''IFSC'', ws, Opt (lit ''Code''), label_tail],
     str ''IFSC Code'', line_value ifsc),
    (seqs [lit ''MICR'', ws, Opt (alts [lit ''Code'', no_dot]), label_tail],
     str ''MICR Code'', line_value (digits 9 (Some 9))),
    (seqs [alts [lit ''Balance'', seqs [lit ''Bal'', dot_opt]], label_tail],
     rupee_key ''Balance'',
     (seqs [Bol, ws, Opt rs_cls, dot_opt, ws], amt, seqs [ws, Eol])),
    (seqs [alts [lit ''Ref'', lit ''Reference''], ws,
           Opt (alts [no_dot, lit ''Number'', lit ''ID'']), label_tail],
     str ''Reference Number'', line_value (digits 8 None)),
    (seqs [alts [lit ''CIF'', sp_words [''Customer'', ''ID'']], ws,
           Opt (alts [no_dot, lit ''Number'']), label_tail],
     str ''CIF Number'', line_value (digits 6 None)),
    (seqs [lit ''Nominat'', alts [lit ''ion'', lit ''ee''], label_tail],
     str ''Nomination'', line_value (Rep [Dot] 2 None)),
    (seqs [alts [lit ''Address'', seqs [lit ''Addr'', dot_opt]], label_tail],
     str ''Address'', line_value (Rep [Dot] 3 None)),
    (seqs [lit ''Joint'', ws,
           alts [lit ''Holder'', sp_words [''Account'', ''Holder''], lit ''Name''], label_tail],
     str ''Joint Holder'', line_value (Rep [Dot] 2 None)),
    (seqs [mobile_label, label_tail],
     str ''Mobile Number'', line_value mobile_digits),
    (seqs [doo, label_tail],
     str ''Date of Opening'', line_value date_slash),
    (seqs [alts [lit ''Narration'', lit ''Particulars'', lit ''Remark''], label_tail],
     str ''Narration'', line_value (Rep [Dot] 3 None)),
    (seqs [alts [lit ''Cheque'', lit ''Chq''], ws, Opt (alts [no_dot, lit ''Number'']),
           label_tail],
     str ''Cheque Number'', line_value (digits 6 None))]"

section \<open>Document records\<close>

text \<open>
  A Document Record is a Python dictionary from field names to strings: an association
  list in insertion order. \<open>details[k] = v\<close> is \<open>AList.update\<close>; \<open>dget\<close> reads a field,
  with the empty string for a field that is absent or empty (\<open>details.get(k)\<close> is falsy in
  both cases, and the fields read with \<open>details[k]\<close> are those of the dictionary literal
  the function starts from).
\<close>

type_synonym doc_record = "(ustr \<times> ustr) list"

definition dget :: "doc_record \<Rightarrow> ustr \<Rightarrow> ustr" where
  "dget details k = (case map_of details k of None \<Rightarrow> [] | Some v \<Rightarrow> v)"

definition dset :: "ustr \<Rightarrow> ustr \<Rightarrow> doc_record \<Rightarrow> doc_record" where
  "dset k v details = AList.update k v details"

section \<open>Passbook extraction\<close>

text \<open>\<open>_get_next_nonempty\<close>: the next line after \<open>start_idx\<close> that is not blank, stripped.\<close>

definition get_next_nonempty :: "ustr list \<Rightarrow> nat \<Rightarrow> ustr" where
  "get_next_nonempty lines start_idx =
     (case dropWhile (\<lambda>l. strip l = []) (drop (start_idx + 1) lines) of
        [] \<Rightarrow> []
      | l # _ \<Rightarrow> strip l)"

text \<open>One multi-line rule on one line (the body of the inner loop).\<close>

definition label_step :: "ustr \<Rightarrow> ustr \<Rightarrow> doc_record \<Rightarrow> label_rule \<Rightarrow> doc_record" where
  "label_step line next_line details rule =
     (case rule of (label_re, field_key, pre, g, post) \<Rightarrow>
        if dget details field_key \<noteq> [] then details
        else if re_search True False (NoGrp label_re) line \<noteq> None then
          (if next_line \<noteq> [] then
             (case re_match True False (Grp pre g post) next_line of
                Some (g0, Some v, e) \<Rightarrow> dset field_key (strip v) details
              | _ \<Rightarrow> details)
           else details)
        else details)"

definition standalone_account :: "ustr \<Rightarrow> doc_record \<Rightarrow> doc_record" where
  "standalone_account line details =
     (if dget details (str ''Account Number'') = [] then
        (case re_match False False
                (Grp (seqs [Bol, ws]) (digits 9 (Some 18)) (seqs [ws, Eol])) line of
           Some (g0, Some v, e) \<Rightarrow> dset (str ''Account Number'') v details
         | _ \<Rightarrow> details)
      else details)"

definition standalone_ifsc :: "ustr \<Rightarrow> doc_record \<Rightarrow> doc_record" where
  "standalone_ifsc line details =
     (if dget details (str ''IFSC Code'') = [] then
        (case re_match False False (Grp (seqs [Bol, ws]) ifsc (seqs [ws, Eol])) line of
           Some (g0, Some val, e) \<Rightarrow>
             if map_of details (str ''MICR Code'') \<noteq> Some val
             then dset (str ''IFSC Code'') val details else details
         | _ \<Rightarrow> details)
      else details)"

text \<open>The body of the loop over the lines.\<close>

definition scan_line :: "ustr list \<Rightarrow> doc_record \<Rightarrow> nat \<times> ustr \<Rightarrow> doc_record" where
  "scan_line lines details il =
     (case il of (i, line) \<Rightarrow>
        if line = [] then details
        else
          (let next_line = get_next_nonempty lines i;
               d1 = foldl (label_step line next_line) details passbook_multiline_labels;
               d2 = standalone_account line d1
           in standalone_ifsc line d2))"

definition scan_passbook_lines :: "ustr \<Rightarrow> doc_record \<Rightarrow> doc_record" where
  "scan_passbook_lines text details =
     (let lines = map strip (split_nl text)
      in foldl (scan_line lines) details (enumerate 0 lines))"

text \<open>Pass 1 of \<open>_parse_passbook_details\<close>: the dictionary literal.\<close>

definition pb_match :: "string \<Rightarrow> ustr \<Rightarrow> ustr" where
  "pb_match pattern_key text = find_match pattern_key text (Some passbook_patterns)"

definition passbook_inline :: "ustr \<Rightarrow> ustr \<Rightarrow> doc_record" where
  "passbook_inline text filename = [
     (str ''File Name'', filename),
     (str ''Bank Name'', pb_match ''bank_name'' text),
     (str ''Account Holder'', pb_match ''account_holder'' text),
     (str ''Account Number'', pb_match ''account_number'' text),
     (str ''Account Type'', pb_match ''account_type'' text),
     (str ''IFSC Code'', pb_match ''ifsc_code'' text),
     (str ''MICR Code'', pb_match ''micr_code'' text),
     (str ''Branch Name'', pb_match ''branch_name'' text),
     (str ''CIF Number'', pb_match ''cif_number'' text),
     (str ''Date of Opening'', pb_match ''date_of_opening'' text),
     (str ''Nomination'', pb_match ''nomination'' text),
     (str ''Joint Holder'', pb_match ''joint_holder'' text),
     (str ''Address'', pb_match ''address'' text),
     (str ''Mobile Number'', pb_match ''mobile_number'' text),
     (str ''Date'', pb_match ''date'' text),
     (str ''Transaction Type'', pb_match ''transaction_type'' text),
     (str ''Narration'', pb_match ''narration'' text),
     (str ''Reference Number'', pb_match ''reference_number'' text),
     (str ''Cheque Number'', pb_match ''cheque_number'' text),
     (rupee_key ''Credit'', clean_amount (pb_match ''credit_amount'' text)),
     (rupee_key ''Debit'', clean_amount (pb_match ''debit_amount'' text)),
     (rupee_key ''Balance'', clean_amount (pb_match ''balance'' text)),
     (rupee_key ''Opening Balance'', clean_amount (pb_match ''opening_balance'' text)),
     (rupee_key ''Closing Balance'', clean_amount (pb_match ''closing_balance'' text)),
     (str ''All Extracted Text'', strip text)]"

text \<open>Post-processing. \<open>re.sub(r'[\s\-]', '', v)\<close> deletes whitespace and dashes.\<close>

definition drop_space_dash :: "ustr \<Rightarrow> ustr" where
  "drop_space_dash v = filter (\<lambda>c. \<not> (is_space c \<or> c = cp CHR ''-'')) v"

definition type_map :: "(ustr \<times> ustr) list" where
  "type_map = [
     (str ''SB'', str ''Savings''), (str ''SAVINGS'', str ''Savings''),
     (str ''CA'', str ''Current''), (str ''CURRENT'', str ''Current''),
     (str ''FD'', str ''Fixed Deposit''), (str ''FIXED DEPOSIT'', str ''Fixed Deposit''),
     (str ''RD'', str ''Recurring Deposit''),
     (str ''RECURRING DEPOSIT'', str ''Recurring Deposit'')]"

definition clean_account_number :: "doc_record \<Rightarrow> doc_record" where
  "clean_account_number details =
     (if dget details (str ''Account Number'') \<noteq> []
      then dset (str ''Account Number'') (drop_space_dash (dget details (str ''Account Number'')))
             details
      else details)"

definition normalize_account_type :: "doc_record \<Rightarrow> doc_record" where
  "normalize_account_type details =
     (let acc_type = (if dget details (str ''Account Type'') \<noteq> []
                      then upper (dget details (str ''Account Type'')) else [])
      in case map_of type_map acc_type of
           Some t \<Rightarrow> dset (str ''Account Type'') t details
         | None \<Rightarrow> details)"

definition ifsc_micr_guard :: "doc_record \<Rightarrow> doc_record" where
  "ifsc_micr_guard details =
     (if dget details (str ''IFSC Code'') \<noteq> [] \<and> dget details (str ''MICR Code'') \<noteq> []
         \<and> dget details (str ''IFSC Code'') = dget details (str ''MICR Code'')
      then dset (str ''MICR Code'') [] details
      else details)"

definition balance_micr_guard :: "doc_record \<Rightarrow> doc_record" where
  "balance_micr_guard details =
     (let bal = dget details (rupee_key ''Balance'')
      in if bal \<noteq> []
            \<and> length (filter (\<lambda>c. c \<noteq> cp CHR '','') (filter (\<lambda>c. c \<noteq> cp CHR ''.'') bal)) = 9
         then (if bal = filter (\<lambda>c. c \<noteq> cp CHR '' '') (dget details (str ''MICR Code''))
               then dset (rupee_key ''Balance'') [] details else details)
         else details)"

definition clean_mobile_number :: "doc_record \<Rightarrow> doc_record" where
  "clean_mobile_number details =
     (if dget details (str ''Mobile Number'') \<noteq> []
      then dset (str ''Mobile Number'') (drop_space_dash (dget details (str ''Mobile Number'')))
             details
      else details)"

definition passbook_post :: "doc_record \<Rightarrow> doc_record" where
  "passbook_post details =
     clean_mobile_number (balance_micr_guard (ifsc_micr_guard
       (normalize_account_type (clean_account_number details))))"

definition parse_passbook_details :: "ustr \<Rightarrow> ustr \<Rightarrow> doc_record" where
  "parse_passbook_details text filename =
     passbook_post (scan_passbook_lines text (passbook_inline text filename))"

section \<open>UPI screenshot extraction\<close>

definition screenshot_init :: "ustr \<Rightarrow> ustr \<Rightarrow> doc_record" where
  "screenshot_init text filename = [
     (str ''File Name'', filename),
     (str ''UPI Transaction ID'', []),
     (str ''Google Transaction ID'', []),
     (str ''Reference ID'', []),
     (str ''From (Sender)'', []),
     (str ''To (Receiver)'', []),
     (str ''UPI ID / VPA'', []),
     (str ''Bank Name'', []),
     (str ''Amount'', []),
     (str ''Payment Status'', []),
     (str ''Date'', []),
     (str ''Time'', []),
     (str ''Transaction Note'', []),
     (str ''All Extracted Text'', strip text)]"

definition set_status :: "ustr \<Rightarrow> doc_record \<Rightarrow> doc_record" where
  "set_status text details =
     (let status_raw = upper (find_match ''status'' text None)
      in if substr_in (str ''SUCCESS'') status_raw \<or> substr_in (str ''COMPLETED'') status_raw
         then dset (str ''Payment Status'') (str ''SUCCESS'') details
         else if substr_in (str ''FAIL'') status_raw
         then dset (str ''Payment Status'') (str ''FAILED'') details
         else if substr_in (str ''PENDING'') status_raw \<or> substr_in (str ''PROCESSING'') status_raw
         then dset (str ''Payment Status'') (str ''PENDING'') details
         else details)"

definition screenshot_inline :: "ustr \<Rightarrow> ustr \<Rightarrow> doc_record" where
  "screenshot_inline text filename =
     set_status text
       (dset (str ''Time'') (find_match ''time'' text None)
       (dset (str ''Date'') (find_match ''date'' text None)
       (dset (str ''UPI ID / VPA'') (find_match ''upi_id'' text None)
       (dset (str ''Amount'') (clean_amount (find_match ''amount'' text None))
       (screenshot_init text filename)))))"

text \<open>The candidate tokens: \<open>re.findall\<close> of every transaction-id rule, in rule order.\<close>

definition all_ids :: "ustr \<Rightarrow> ustr list" where
  "all_ids text =
     concat (map (\<lambda>p. re_findall True False p text)
                 (case map_of patterns ''txn_id'' of None \<Rightarrow> [] | Some ps \<Rightarrow> ps))"

text \<open>The body of the loop over \<open>set(all_ids)\<close>.\<close>

definition classify_txn :: "doc_record \<Rightarrow> ustr \<Rightarrow> doc_record" where
  "classify_txn details txn0 =
     (let txn = strip txn0
      in if txn = [] then details
         else if substr_in (str ''CIC'') txn \<or> (20 < length txn \<and> \<not> isdigit txn)
         then dset (str ''Google Transaction ID'') txn details
         else if isdigit txn \<and> 12 \<le> length txn
         then dset (str ''Reference ID'') txn details
         else if 8 < length txn
         then dset (str ''UPI Transaction ID'') txn details
         else details)"

text \<open>
  \<open>re.sub(pattern, '', line)\<close>: the text with the matches of the rule deleted (\<open>k\<close>
  counts the characters of the last match still to delete).
\<close>

fun sub_from :: "bool \<Rightarrow> bool \<Rightarrow> pattern \<Rightarrow> nat \<Rightarrow> mstate \<Rightarrow> ustr" where
  "sub_from ic ml p k (prev, []) = []"
| "sub_from ic ml p k (prev, c # cs) =
     (if 0 < k then sub_from ic ml p (k - 1) (Some c, cs)
      else (case match_at ic ml p (prev, c # cs) of
              None \<Rightarrow> c # sub_from ic ml p 0 (Some c, cs)
            | Some (g0, g1, e) \<Rightarrow>
                if g0 = [] then c # sub_from ic ml p 0 (Some c, cs)
                else sub_from ic ml p (length g0 - 1) (Some c, cs)))"

definition re_sub_empty :: "bool \<Rightarrow> bool \<Rightarrow> pattern \<Rightarrow> ustr \<Rightarrow> ustr" where
  "re_sub_empty ic ml p text = sub_from ic ml p 0 (None, text)"

definition label_prefix :: "string \<Rightarrow> pattern" where \<comment> \<open>\<open>^to\s*[:\-]?\s*\<close>, \<open>^from\s*[:\-]?\s*\<close>\<close>
  "label_prefix w = NoGrp (seqs [Bol, lit w, ws, sep_opt, ws])"

definition bank_step :: "ustr \<Rightarrow> doc_record \<Rightarrow> doc_record" where
  "bank_step line details =
     (if substr_in (str ''Bank'') line \<and> dget details (str ''Bank Name'') = [] then
        (if length line < 40
            \<and> \<not> list_ex (\<lambda>x. substr_in x (lower line)) [str ''ref'', str ''id'', str ''no'']
         then dset (str ''Bank Name'') line details else details)
      else details)"

definition receiver_step :: "ustr list \<Rightarrow> nat \<Rightarrow> ustr \<Rightarrow> doc_record \<Rightarrow> doc_record" where
  "receiver_step lines i line details =
     (if (startswith (lower line) (str ''to'') \<or> lower line = str ''paid to'')
         \<and> dget details (str ''To (Receiver)'') = [] then
        (let clean = strip (re_sub_empty True False (label_prefix ''to'') line)
         in if clean \<noteq> [] then dset (str ''To (Receiver)'') clean details
            else if i + 1 < length lines then dset (str ''To (Receiver)'') (lines ! (i + 1)) details
            else details)
      else details)"

definition sender_step :: "ustr list \<Rightarrow> nat \<Rightarrow> ustr \<Rightarrow> doc_record \<Rightarrow> doc_record" where
  "sender_step lines i line details =
     (if startswith (lower line) (str ''from'') \<and> dget details (str ''From (Sender)'') = [] then
        (let clean = strip (re_sub_empty True False (label_prefix ''from'') line)
         in if clean \<noteq> [] then dset (str ''From (Sender)'') clean details
            else if i + 1 < length lines
            then dset (str ''From (Sender)'') (lines ! (i + 1)) details
            else details)
      else details)"

definition heuristic_line :: "ustr list \<Rightarrow> doc_record \<Rightarrow> nat \<times> ustr \<Rightarrow> doc_record" where
  "heuristic_line lines details il =
     (case il of (i, line) \<Rightarrow>
        sender_step lines i line (receiver_step lines i line (bank_step line details)))"

definition heuristic_scan :: "ustr \<Rightarrow> doc_record \<Rightarrow> doc_record" where
  "heuristic_scan text details =
     (let lines = filter (\<lambda>l. l \<noteq> []) (map strip (split_nl text))
      in foldl (heuristic_line lines) details (enumerate 0 lines))"

text \<open>
  \<open>parse_details\<close>. The loop over \<open>set(all_ids)\<close> visits the distinct tokens in the order
  in which the Python set yields them; that order is the parameter \<open>set_iter\<close>, which maps
  the list the set is built from to the sequence of its elements.
\<close>

definition parse_details :: "(ustr list \<Rightarrow> ustr list) \<Rightarrow> ustr \<Rightarrow> ustr \<Rightarrow> ustr \<Rightarrow> doc_record" where
  "parse_details set_iter text filename source_type =
     (if source_type = str ''passbook'' then parse_passbook_details text filename
      else heuristic_scan text
             (foldl classify_txn (screenshot_inline text filename) (set_iter (all_ids text))))"

section \<open>Pipeline\<close>

text \<open>
  What \<open>extract_all\<close> takes from outside the extractor: the OCR engine, which returns the
  text of an image or raises (\<open>Inl\<close> carries \<open>str(e)\<close> of the exception); Python's \<open>hash\<close>
  on the frozen set of the key fields; \<open>os.path.basename\<close>; and the order in which a set
  of strings is iterated.
\<close>

record 'h env =
  ocr_extract_text :: "ustr \<Rightarrow> ustr \<Rightarrow> ustr + ustr"
  py_hash :: "(ustr \<times> ustr) set \<Rightarrow> 'h"
  basename :: "ustr \<Rightarrow> ustr"
  iter_order :: "ustr list \<Rightarrow> ustr list"

record summary =
  success :: nat
  failed :: nat
  duplicates :: nat
  errors :: "(ustr \<times> ustr) list"

text \<open>
  The state of the loop: the records so far, the hashes seen, the summary, and the calls
  that the progress callback has received (current, n_total, message).
\<close>

record 'h run_state =
  all_data :: "doc_record list"
  seen_hashes :: "'h set"
  summ :: summary
  progress :: "(nat \<times> nat \<times> ustr) list"

definition init_state :: "'h run_state" where
  "init_state = \<lparr>all_data = [], seen_hashes = {},
                 summ = \<lparr>success = 0, failed = 0, duplicates = 0, errors = []\<rparr>,
                 progress = []\<rparr>"

text \<open>The fields that make the duplicate signature of a record.\<close>

definition key_fields :: "doc_record \<Rightarrow> (ustr \<times> ustr) list" where
  "key_fields parsed_data =
     filter (\<lambda>kv. fst kv \<noteq> str ''File Name'' \<and> fst kv \<noteq> str ''All Extracted Text''
                   \<and> snd kv \<noteq> []) parsed_data"

definition error_record :: "ustr \<Rightarrow> ustr \<Rightarrow> doc_record" where
  "error_record filename e = [(str ''File Name'', filename), (str ''Error'', e)]"

definition msg_processing :: "ustr \<Rightarrow> ustr" where
  "msg_processing filename = str ''Processing '' @ filename @ str ''...''"

definition msg_duplicate :: "ustr \<Rightarrow> ustr" where
  "msg_duplicate filename = [9197, 65039] @ str '' Skipped duplicate: '' @ filename"

definition msg_error :: "ustr \<Rightarrow> ustr \<Rightarrow> ustr" where
  "msg_error filename e = [10060] @ str '' Error: '' @ filename @ str '' '' @ [8212] @ str '' '' @ e"

text \<open>The body of the loop of \<open>extract_all\<close>, with its \<open>try\<close> and \<open>except\<close> branches.\<close>

definition on_error :: "nat \<Rightarrow> nat \<Rightarrow> ustr \<Rightarrow> ustr \<Rightarrow> 'h run_state \<Rightarrow> 'h run_state" where
  "on_error i n_total filename e st =
     st\<lparr>summ := (summ st)\<lparr>failed := failed (summ st) + 1,
                            errors := errors (summ st) @ [(filename, e)]\<rparr>,
        all_data := all_data st @ [error_record filename e],
        progress := progress st @ [(i + 1, n_total, msg_error filename e)]\<rparr>"

definition on_parsed :: "'h env \<Rightarrow> nat \<Rightarrow> nat \<Rightarrow> ustr \<Rightarrow> doc_record \<Rightarrow> 'h run_state
    \<Rightarrow> 'h run_state" where
  "on_parsed env i n_total filename parsed_data st =
     (let data_hash = py_hash env (set (key_fields parsed_data))
      in if data_hash \<in> seen_hashes st
         then st\<lparr>summ := (summ st)\<lparr>duplicates := duplicates (summ st) + 1\<rparr>,
                 progress := progress st @ [(i + 1, n_total, msg_duplicate filename)]\<rparr>
         else st\<lparr>seen_hashes := insert data_hash (seen_hashes st),
                 all_data := all_data st @ [parsed_data],
                 summ := (summ st)\<lparr>success := success (summ st) + 1\<rparr>\<rparr>)"

definition extract_step :: "'h env \<Rightarrow> nat \<Rightarrow> ustr \<Rightarrow> 'h run_state \<Rightarrow> nat \<times> ustr
    \<Rightarrow> 'h run_state" where
  "extract_step env n_total source_type st ip =
     (case ip of (i, img_path) \<Rightarrow>
        let filename = basename env img_path;
            st1 = st\<lparr>progress := progress st @ [(i + 1, n_total, msg_processing filename)]\<rparr>
        in case ocr_extract_text env img_path source_type of
             Inl e \<Rightarrow> on_error i n_total filename e st1
           | Inr raw_text \<Rightarrow>
               on_parsed env i n_total filename
                 (parse_details (iter_order env) raw_text filename source_type) st1)"

definition run_all :: "'h env \<Rightarrow> ustr list \<Rightarrow> ustr \<Rightarrow> 'h run_state" where
  "run_all env image_paths source_type =
     foldl (extract_step env (length image_paths) source_type) init_state
           (enumerate 0 image_paths)"

definition extract_all :: "'h env \<Rightarrow> ustr list \<Rightarrow> ustr \<Rightarrow> doc_record list \<times> summary" where
  "extract_all env image_paths source_type =
     (let st = run_all env image_paths source_type in (all_data st, summ st))"

section \<open>Notions used in the statements\<close>

text \<open>The field names of the two dictionary literals, in their order.\<close>

definition screenshot_keys :: "ustr list" where
  "screenshot_keys = [str ''File Name'', str ''UPI Transaction ID'', str ''Google Transaction ID'',
     str ''Reference ID'', str ''From (Sender)'', str ''To (Receiver)'', str ''UPI ID / VPA'',
     str ''Bank Name'', str ''Amount'', str ''Payment Status'', str ''Date'', str ''Time'',
     str ''Transaction Note'', str ''All Extracted Text'']"

definition passbook_keys :: "ustr list" where
  "passbook_keys = [str ''File Name'', str ''Bank Name'', str ''Account Holder'',
     str ''Account Number'', str ''Account Type'', str ''IFSC Code'', str ''MICR Code'',
     str ''Branch Name'', str ''CIF Number'', str ''Date of Opening'', str ''Nomination'',
     str ''Joint Holder'', str ''Address'', str ''Mobile Number'', str ''Date'',
     str ''Transaction Type'', str ''Narration'', str ''Reference Number'',
     str ''Cheque Number'', rupee_key ''Credit'', rupee_key ''Debit'', rupee_key ''Balance'',
     rupee_key ''Opening Balance'', rupee_key ''Closing Balance'', str ''All Extracted Text'']"

definition field_keys :: "ustr \<Rightarrow> ustr list" where
  "field_keys source_type =
     (if source_type = str ''passbook'' then passbook_keys else screenshot_keys)"


text \<open>
  A sample environment: the OCR engine fails on \<open>bad.png\<close>, reads \<open>Rs 70\<close> from \<open>b.png\<close>
  and \<open>Total Payable: Rs 500\<close> from every other image; the hash of a signature is the
  signature; a set is iterated in the order of first insertion.
\<close>

definition sample_ocr :: "ustr \<Rightarrow> ustr \<Rightarrow> ustr + ustr" where
  "sample_ocr img_path source_type =
     (if img_path = str ''bad.png'' then Inl (str ''cannot read'')
      else if img_path = str ''b.png'' then Inr (str ''Rs 70'')
      else Inr (str ''Total Payable: Rs 500''))"

definition sample_env :: "(ustr \<times> ustr) set env" where
  "sample_env = \<lparr>ocr_extract_text = sample_ocr, py_hash = (\<lambda>s. s), basename = (\<lambda>p. p),
                  iter_order = remdups\<rparr>"


text \<open>
  The records that a run may return: a parsed record with the field names of the mode, or
  the error record of a document of the batch on which the OCR engine raised.
\<close>

definition expected_record :: "'h env \<Rightarrow> ustr list \<Rightarrow> ustr \<Rightarrow> doc_record \<Rightarrow> bool" where
  "expected_record env image_paths source_type r =
     (map fst r = field_keys source_type
      \<or> list_ex (\<lambda>p. case ocr_extract_text env p source_type of
                        Inl e \<Rightarrow> r = error_record (basename env p) e
                      | Inr raw_text \<Rightarrow> False) image_paths)"

definition id_keys :: "ustr list" where
  "id_keys = [str ''Google Transaction ID'', str ''Reference ID'', str ''UPI Transaction ID'']"

definition spec_txn_field :: "ustr \<Rightarrow> ustr option" where
  "spec_txn_field token =
     (if substr_in (str ''CIC'') token \<or> (length token > 20 \<and> \<not> isdigit token)
      then Some (str ''Google Transaction ID'')
      else if isdigit token \<and> length token \<ge> 12 then Some (str ''Reference ID'')
      else if length token > 8 then Some (str ''UPI Transaction ID'')
      else None)"



definition heuristic_keys :: "ustr list" where
  "heuristic_keys = [str ''Bank Name'', str ''To (Receiver)'', str ''From (Sender)'']"

definition inline_keys :: "ustr list" where
  "inline_keys = [str ''Amount'', str ''UPI ID / VPA'', str ''Date'', str ''Time'',
     str ''Payment Status'']"

definition agree_on :: "ustr list \<Rightarrow> doc_record \<Rightarrow> doc_record \<Rightarrow> bool" where
  "agree_on ks d1 d2 = list_all (\<lambda>k. dget d1 k = dget d2 k) ks"

section \<open>Records and strings: basic facts\<close>

lemmas str_eval = str_def cp_def rupee_key_def rupee_def

lemma keys_dset: "k \<in> set (map fst d) \<Longrightarrow> map fst (dset k v d) = map fst d"
  by (simp add: dset_def update_keys)

lemma dget_dset: "dget (dset k v d) k' = (if k' = k then v else dget d k')"
  by (simp add: dget_def dset_def update_conv')

section \<open>The summary of a run\<close>







section \<open>Error isolation\<close>






section \<open>The field names of a record\<close>

lemma screenshot_mem:
  "str ''Time'' \<in> set screenshot_keys" "str ''Date'' \<in> set screenshot_keys"
  "str ''UPI ID / VPA'' \<in> set screenshot_keys" "str ''Amount'' \<in> set screenshot_keys"
  "str ''Payment Status'' \<in> set screenshot_keys"
  "str ''Google Transaction ID'' \<in> set screenshot_keys"
  "str ''Reference ID'' \<in> set screenshot_keys"
  "str ''UPI Transaction ID'' \<in> set screenshot_keys"
  "str ''Bank Name'' \<in> set screenshot_keys" "str ''To (Receiver)'' \<in> set screenshot_keys"
  "str ''From (Sender)'' \<in> set screenshot_keys"
  by (simp_all add: screenshot_keys_def)

lemma passbook_mem:
  "str ''Account Number'' \<in> set passbook_keys" "str ''Account Holder'' \<in> set passbook_keys"
  "str ''Branch Name'' \<in> set passbook_keys" "str ''IFSC Code'' \<in> set passbook_keys"
  "str ''MICR Code'' \<in> set passbook_keys" "rupee_key ''Balance'' \<in> set passbook_keys"
  "str ''Reference Number'' \<in> set passbook_keys" "str ''CIF Number'' \<in> set passbook_keys"
  "str ''Nomination'' \<in> set passbook_keys" "str ''Address'' \<in> set passbook_keys"
  "str ''Joint Holder'' \<in> set passbook_keys" "str ''Mobile Number'' \<in> set passbook_keys"
  "str ''Date of Opening'' \<in> set passbook_keys" "str ''Narration'' \<in> set passbook_keys"
  "str ''Cheque Number'' \<in> set passbook_keys" "str ''Account Type'' \<in> set passbook_keys"
  by (simp_all add: passbook_keys_def)

lemma keys_screenshot_init: "map fst (screenshot_init text filename) = screenshot_keys"
  by (simp add: screenshot_init_def screenshot_keys_def)

lemma keys_set_status:
  "map fst d = screenshot_keys \<Longrightarrow> map fst (set_status text d) = screenshot_keys"
  by (simp add: set_status_def Let_def keys_dset screenshot_mem)

lemma keys_screenshot_inline: "map fst (screenshot_inline text filename) = screenshot_keys"
  by (simp add: screenshot_inline_def keys_set_status keys_dset keys_screenshot_init
        screenshot_mem)

lemma keys_classify_txn:
  "map fst d = screenshot_keys \<Longrightarrow> map fst (classify_txn d t) = screenshot_keys"
  by (simp add: classify_txn_def Let_def keys_dset screenshot_mem)

lemma keys_foldl_classify:
  "map fst d = screenshot_keys \<Longrightarrow> map fst (foldl classify_txn d ts) = screenshot_keys"
  by (induction ts arbitrary: d) (simp_all add: keys_classify_txn)

lemma keys_heuristic_line:
  "map fst d = screenshot_keys \<Longrightarrow> map fst (heuristic_line lines d il) = screenshot_keys"
  by (cases il)
     (simp add: heuristic_line_def bank_step_def receiver_step_def sender_step_def Let_def
        keys_dset screenshot_mem)

lemma keys_foldl_heuristic:
  "map fst d = screenshot_keys \<Longrightarrow>
   map fst (foldl (heuristic_line lines) d ils) = screenshot_keys"
  by (induction ils arbitrary: d) (simp_all add: keys_heuristic_line)

lemma keys_heuristic_scan:
  "map fst d = screenshot_keys \<Longrightarrow> map fst (heuristic_scan text d) = screenshot_keys"
  by (simp add: heuristic_scan_def Let_def keys_foldl_heuristic)

lemma keys_passbook_inline: "map fst (passbook_inline text filename) = passbook_keys"
  by (simp add: passbook_inline_def passbook_keys_def)

lemma labels_keys:
  "list_all (\<lambda>rule. fst (snd rule) \<in> set passbook_keys) passbook_multiline_labels"
  by (simp add: passbook_multiline_labels_def passbook_mem)

lemma keys_label_step:
  "map fst d = passbook_keys \<Longrightarrow> fst (snd rule) \<in> set passbook_keys \<Longrightarrow>
   map fst (label_step line next_line d rule) = passbook_keys"
  by (cases rule) (simp add: label_step_def keys_dset split: option.splits prod.splits)

lemma keys_foldl_label:
  "map fst d = passbook_keys \<Longrightarrow> list_all (\<lambda>rule. fst (snd rule) \<in> set passbook_keys) rules \<Longrightarrow>
   map fst (foldl (label_step line next_line) d rules) = passbook_keys"
  by (induction rules arbitrary: d) (simp_all add: keys_label_step)

lemma keys_standalone_account:
  "map fst d = passbook_keys \<Longrightarrow> map fst (standalone_account line d) = passbook_keys"
  by (simp add: standalone_account_def keys_dset passbook_mem split: option.splits prod.splits)

lemma keys_standalone_ifsc:
  "map fst d = passbook_keys \<Longrightarrow> map fst (standalone_ifsc line d) = passbook_keys"
  by (simp add: standalone_ifsc_def keys_dset passbook_mem split: option.splits prod.splits)

lemma keys_scan_line:
  "map fst d = passbook_keys \<Longrightarrow> map fst (scan_line lines d il) = passbook_keys"
  by (cases il)
     (simp add: scan_line_def Let_def keys_standalone_ifsc keys_standalone_account
        keys_foldl_label labels_keys)

lemma keys_foldl_scan:
  "map fst d = passbook_keys \<Longrightarrow> map fst (foldl (scan_line lines) d ils) = passbook_keys"
  by (induction ils arbitrary: d) (simp_all add: keys_scan_line)

lemma keys_scan_passbook_lines:
  "map fst d = passbook_keys \<Longrightarrow> map fst (scan_passbook_lines text d) = passbook_keys"
  by (simp add: scan_passbook_lines_def Let_def keys_foldl_scan)

lemma keys_clean_account_number:
  "map fst d = passbook_keys \<Longrightarrow> map fst (clean_account_number d) = passbook_keys"
  by (simp add: clean_account_number_def keys_dset passbook_mem)

lemma keys_normalize_account_type:
  "map fst d = passbook_keys \<Longrightarrow> map fst (normalize_account_type d) = passbook_keys"
  by (simp add: normalize_account_type_def Let_def keys_dset passbook_mem split: option.splits)

lemma keys_ifsc_micr_guard:
  "map fst d = passbook_keys \<Longrightarrow> map fst (ifsc_micr_guard d) = passbook_keys"
  by (simp add: ifsc_micr_guard_def keys_dset passbook_mem)

lemma keys_balance_micr_guard:
  "map fst d = passbook_keys \<Longrightarrow> map fst (balance_micr_guard d) = passbook_keys"
  by (simp add: balance_micr_guard_def Let_def keys_dset passbook_mem)

lemma keys_clean_mobile_number:
  "map fst d = passbook_keys \<Longrightarrow> map fst (clean_mobile_number d) = passbook_keys"
  by (simp add: clean_mobile_number_def keys_dset passbook_mem)

lemma keys_passbook_post:
  "map fst d = passbook_keys \<Longrightarrow> map fst (passbook_post d) = passbook_keys"
  by (simp add: passbook_post_def keys_clean_mobile_number keys_balance_micr_guard
        keys_ifsc_micr_guard keys_normalize_account_type keys_clean_account_number)

lemma keys_parse_details:
  "map fst (parse_details it text filename source_type) = field_keys source_type"
  by (simp add: parse_details_def field_keys_def parse_passbook_details_def
        keys_passbook_post keys_scan_passbook_lines keys_passbook_inline
        keys_heuristic_scan keys_foldl_classify keys_screenshot_inline)


lemma expected_step:
  assumes "list_all (expected_record env image_paths source_type) (all_data st)"
    and "p \<in> set image_paths"
  shows "list_all (expected_record env image_paths source_type)
           (all_data (extract_step env n source_type st (i, p)))"
proof (cases "ocr_extract_text env p source_type")
  case (Inl e)
  have "expected_record env image_paths source_type (error_record (basename env p) e)"
    unfolding expected_record_def list_ex_iff
    using assms(2) Inl by (intro disjI2 bexI [of _ p]) simp_all
  with assms(1) Inl show ?thesis
    by (simp add: extract_step_def Let_def on_error_def)
next
  case (Inr raw_text)
  have "expected_record env image_paths source_type
          (parse_details (iter_order env) raw_text (basename env p) source_type)"
    by (simp add: expected_record_def keys_parse_details)
  with assms(1) Inr show ?thesis
    by (simp add: extract_step_def Let_def on_parsed_def)
qed

lemma expected_foldl:
  "list_all (expected_record env image_paths source_type) (all_data st) \<Longrightarrow>
   snd ` set ips \<subseteq> set image_paths \<Longrightarrow>
   list_all (expected_record env image_paths source_type)
     (all_data (foldl (extract_step env n source_type) st ips))"
proof (induction ips arbitrary: st)
  case Nil
  then show ?case by simp
next
  case (Cons ip ips)
  obtain i p where ip: "ip = (i, p)" by (cases ip)
  with Cons.prems(2) have "p \<in> set image_paths" by simp
  from expected_step [OF Cons.prems(1) this]
  have "list_all (expected_record env image_paths source_type)
          (all_data (extract_step env n source_type st ip))"
    by (simp add: ip)
  from Cons.IH [OF this] Cons.prems(2) show ?case by simp
qed

lemma expected_run_all:
  "list_all (expected_record env image_paths source_type)
     (all_data (run_all env image_paths source_type))"
proof -
  have "snd ` set (enumerate 0 image_paths) \<subseteq> set image_paths"
    by (auto simp: in_set_enumerate_eq)
  moreover have "list_all (expected_record env image_paths source_type)
                   (all_data (init_state :: 'a run_state))"
    by (simp add: init_state_def)
  ultimately show ?thesis
    unfolding run_all_def by (rule expected_foldl [rotated])
qed

lemma sample_bad_run:
  "fst (extract_all sample_env [str ''bad.png''] (str ''auto''))
     = [error_record (str ''bad.png'') (str ''cannot read'')]"
  by (simp add: extract_all_def run_all_def extract_step_def sample_env_def sample_ocr_def
        on_error_def init_state_def Let_def)

lemma error_key_not_declared: "str ''Error'' \<notin> set (field_keys source_type)"
  by (simp add: field_keys_def screenshot_keys_def passbook_keys_def str_eval)

text \<open>
  C2, as stated: every record that \<open>extract_all\<close> returns has exactly the field names of
  the source mode. It fails for a document whose extraction raised: the record of
  \<open>bad.png\<close> has the field names \<open>File Name\<close> and \<open>Error\<close>.
\<close>

theorem uniform_keys_counterexample:
  "\<not> list_all (\<lambda>r. set (map fst r) = set (field_keys (str ''auto'')))
        (fst (extract_all sample_env [str ''bad.png''] (str ''auto'')))"
proof
  assume "list_all (\<lambda>r. set (map fst r) = set (field_keys (str ''auto'')))
            (fst (extract_all sample_env [str ''bad.png''] (str ''auto'')))"
  then have "set (map fst (error_record (str ''bad.png'') (str ''cannot read'')))
               = set (field_keys (str ''auto''))"
    by (simp add: sample_bad_run)
  then have "str ''Error'' \<in> set (field_keys (str ''auto''))"
    by (auto simp: error_record_def)
  then show False
    by (simp add: error_key_not_declared)
qed

text \<open>
  C2, amended. The record that \<open>parse_details\<close> returns has exactly the field names of
  the source mode, in the order of the dictionary literal, for every text; the record of
  a document whose extraction raised has exactly \<open>File Name\<close> and \<open>Error\<close>; and every
  record that \<open>extract_all\<close> returns is of one of these two kinds, the second only for a
  document of the batch on which the OCR engine raised.
\<close>

theorem uniform_keys_amended:
  "map fst (parse_details it raw_text filename source_type) = field_keys source_type
   \<and> map fst (error_record failed_name e) = [str ''File Name'', str ''Error'']
   \<and> list_all (expected_record env image_paths source_type)
        (fst (extract_all env image_paths source_type))"
  by (simp add: keys_parse_details error_record_def extract_all_def Let_def expected_run_all)

theorem uniform_keys_amended_witness:
  "map fst (parse_details remdups (str ''Rs 70'') (str ''b.png'') (str ''auto''))
     = field_keys (str ''auto'')
   \<and> map fst (error_record (str ''bad.png'') (str ''cannot read'')) = [str ''File Name'', str ''Error'']
   \<and> list_all (expected_record sample_env [str ''b.png'', str ''bad.png''] (str ''auto''))
        (fst (extract_all sample_env [str ''b.png'', str ''bad.png''] (str ''auto'')))
   \<and> length (fst (extract_all sample_env [str ''b.png'', str ''bad.png''] (str ''auto''))) = 2"
proof -
  have "length (fst (extract_all sample_env [str ''b.png'', str ''bad.png''] (str ''auto''))) = 2"
    by (simp add: extract_all_def run_all_def extract_step_def sample_env_def sample_ocr_def
          on_error_def on_parsed_def init_state_def Let_def str_eval)
  with uniform_keys_amended [where it = remdups and raw_text = "str ''Rs 70''"
      and filename = "str ''b.png''" and source_type = "str ''auto''"
      and failed_name = "str ''bad.png''" and e = "str ''cannot read''" and env = sample_env
      and image_paths = "[str ''b.png'', str ''bad.png'']"]
  show ?thesis by simp
qed

section \<open>Field names as strings\<close>

lemma str_eq_iff [simp]: "str s = str t \<longleftrightarrow> s = t"
  by (simp add: str_def inj_map_eq_map inj_on_def cp_def)

lemma str_elem_small: "c \<in> set (str s) \<Longrightarrow> c < 256"
proof -
  have "of_char x < (256::nat)" for x :: char
    using of_char_mod_256 [of x, where ?'a = nat] by (metis mod_less_divisor zero_less_numeral)
  then show "c \<in> set (str s) \<Longrightarrow> c < 256"
    by (auto simp: str_def cp_def)
qed

lemma rupee_key_neq_str [simp]: "rupee_key s \<noteq> str t" "str t \<noteq> rupee_key s"
proof -
  have "rupee \<in> set (rupee_key s)"
    by (simp add: rupee_key_def)
  moreover have "rupee \<notin> set (str t)"
    using str_elem_small [of rupee t] by (auto simp: rupee_def)
  ultimately show "rupee_key s \<noteq> str t" "str t \<noteq> rupee_key s"
    by auto
qed

lemma rupee_key_eq_iff [simp]: "rupee_key s = rupee_key t \<longleftrightarrow> s = t"
  by (simp add: rupee_key_def)

lemma str_Nil_iff [simp]: "str s = [] \<longleftrightarrow> s = []" "[] = str s \<longleftrightarrow> s = []"
  by (auto simp: str_def)

section \<open>The field matcher\<close>



lemmas rx_defs = seqs_def alts_def lit_def ws_def ws1_def sep_opt_def dot_opt_def rs_cls_def
  amt_def digits_def letters_def vpa_def date_sep_def in_class_def is_digit_def is_space_def
  is_word_def lower_c_def upper_c_def re_search_def re_match_def re_findall_def











section \<open>Which fields a step writes\<close>

lemma dget_bank_step:
  "k \<noteq> str ''Bank Name'' \<or> dget d k \<noteq> [] \<Longrightarrow> dget (bank_step line d) k = dget d k"
  by (auto simp: bank_step_def dget_dset)

lemma dget_receiver_step:
  "k \<noteq> str ''To (Receiver)'' \<or> dget d k \<noteq> [] \<Longrightarrow>
   dget (receiver_step lines i line d) k = dget d k"
  by (auto simp: receiver_step_def dget_dset Let_def)

lemma dget_sender_step:
  "k \<noteq> str ''From (Sender)'' \<or> dget d k \<noteq> [] \<Longrightarrow>
   dget (sender_step lines i line d) k = dget d k"
  by (auto simp: sender_step_def dget_dset Let_def)

lemma dget_heuristic_line:
  assumes "k \<notin> set heuristic_keys \<or> dget d k \<noteq> []"
  shows "dget (heuristic_line lines d il) k = dget d k"
proof -
  obtain i line where il: "il = (i, line)" by (cases il)
  have 1: "dget (bank_step line d) k = dget d k"
    using assms by (intro dget_bank_step) (auto simp: heuristic_keys_def)
  have 2: "dget (receiver_step lines i line (bank_step line d)) k = dget (bank_step line d) k"
    using assms 1 by (intro dget_receiver_step) (auto simp: heuristic_keys_def)
  have 3: "dget (sender_step lines i line (receiver_step lines i line (bank_step line d))) k
             = dget (receiver_step lines i line (bank_step line d)) k"
    using assms 1 2 by (intro dget_sender_step) (auto simp: heuristic_keys_def)
  from 1 2 3 show ?thesis
    by (simp add: heuristic_line_def il)
qed

lemma dget_heuristic_foldl:
  "k \<notin> set heuristic_keys \<or> dget d k \<noteq> [] \<Longrightarrow>
   dget (foldl (heuristic_line lines) d ils) k = dget d k"
proof (induction ils arbitrary: d)
  case Nil
  then show ?case by simp
next
  case (Cons il ils)
  have s: "dget (heuristic_line lines d il) k = dget d k"
    using Cons.prems by (rule dget_heuristic_line)
  with Cons.prems have "k \<notin> set heuristic_keys \<or> dget (heuristic_line lines d il) k \<noteq> []"
    by simp
  from Cons.IH [OF this] s show ?case by simp
qed

lemma dget_heuristic_scan:
  "k \<notin> set heuristic_keys \<or> dget d k \<noteq> [] \<Longrightarrow> dget (heuristic_scan text d) k = dget d k"
  by (simp add: heuristic_scan_def Let_def dget_heuristic_foldl)

lemma spec_txn_field_range: "spec_txn_field t = Some k \<Longrightarrow> k \<in> set id_keys"
  by (auto simp: spec_txn_field_def id_keys_def split: if_splits)

lemma classify_txn_spec:
  "classify_txn d t =
     (if strip t = [] then d
      else (case spec_txn_field (strip t) of None \<Rightarrow> d | Some k \<Rightarrow> dset k (strip t) d))"
  by (simp add: classify_txn_def spec_txn_field_def Let_def)

lemma dget_classify_other:
  "k \<notin> set id_keys \<Longrightarrow> dget (classify_txn d t) k = dget d k"
  by (auto simp: classify_txn_spec dget_dset split: option.splits dest: spec_txn_field_range)

lemma dget_foldl_classify_other:
  "k \<notin> set id_keys \<Longrightarrow> dget (foldl classify_txn d ts) k = dget d k"
  by (induction ts arbitrary: d) (simp_all add: dget_classify_other)



lemma dget_set_status:
  "k \<noteq> str ''Payment Status'' \<Longrightarrow> dget (set_status raw_text d) k = dget d k"
  by (simp add: set_status_def Let_def dget_dset)

lemma dget_inline_other:
  assumes "k \<notin> set inline_keys"
  shows "dget (screenshot_inline raw_text filename) k = dget (screenshot_init raw_text filename) k"
proof -
  from assms have "k \<noteq> str ''Amount''" "k \<noteq> str ''UPI ID / VPA''" "k \<noteq> str ''Date''"
    "k \<noteq> str ''Time''" "k \<noteq> str ''Payment Status''"
    by (simp_all add: inline_keys_def)
  then show ?thesis
    by (simp add: screenshot_inline_def dget_set_status dget_dset)
qed

lemma init_empty:
  "k \<noteq> str ''File Name'' \<Longrightarrow> k \<noteq> str ''All Extracted Text'' \<Longrightarrow>
   dget (screenshot_init raw_text filename) k = []"
  by (simp add: dget_def screenshot_init_def)


lemma inline_heuristic_empty:
  assumes "k \<in> set heuristic_keys"
  shows "dget (screenshot_inline raw_text filename) k = []"
proof -
  from assms have "k \<notin> set inline_keys" "k \<noteq> str ''File Name''"
    "k \<noteq> str ''All Extracted Text''"
    by (auto simp: heuristic_keys_def inline_keys_def)
  then show ?thesis
    by (simp add: dget_inline_other init_empty)
qed

lemma id_not_heuristic: "k \<in> set id_keys \<Longrightarrow> k \<notin> set heuristic_keys"
  by (auto simp: id_keys_def heuristic_keys_def)




section \<open>Amounts\<close>







section \<open>Transaction ids\<close>

lemma txn_rules:
  "(case map_of patterns ''txn_id'' of None \<Rightarrow> [] | Some ps \<Rightarrow> ps) = [
      Grp (seqs [lit ''Txn'', ws, lit ''ID'', ws, sep_opt, ws]) (Rep [Word] 1 None) Eps,
      Grp (seqs [lit ''Transaction'', ws, lit ''ID'', ws, sep_opt, ws]) (Rep [Word] 1 None) Eps,
      Grp (seqs [lit ''UPI'', ws, lit ''Ref'', ws, lit ''No'', ws, sep_opt, ws])
          (digits 1 None) Eps,
      Grp (seqs [lit ''Ref'', ws, lit ''No'', ws, sep_opt, ws]) (digits 1 None) Eps,
      Grp (seqs [lit ''UTR'', ws, sep_opt, ws]) (digits 1 None) Eps,
      Grp (seqs [lit ''Google'', ws, lit ''Transaction'', ws, lit ''ID'', ws, sep_opt, ws])
          (Rep [Word, Ch (cp CHR ''-'')] 1 None) Eps,
      Grp (seqs [lit ''Debited'', ws, lit ''from'', ws, sep_opt, ws]) (Rep [Word] 1 None) Eps]"
  by (simp add: patterns_def)


lemma all_ids_two:
  "all_ids (str ''Txn ID: ABCDEFGHIJ'' @ 10 # str ''Transaction ID: KLMNOPQRST'')
     = [str ''ABCDEFGHIJ'', str ''KLMNOPQRST'']"
  by (simp add: all_ids_def txn_rules) (simp add: rx_defs str_def cp_def)





section \<open>Two runs on the same input\<close>

lemma dget_map_of_absent: "k \<notin> fst ` set r \<Longrightarrow> dget r k = []"
proof -
  assume "k \<notin> fst ` set r"
  then have "map_of r k = None"
    by (simp add: map_of_eq_None_iff)
  then show ?thesis
    by (simp add: dget_def)
qed

lemma record_ext:
  "map fst r1 = map fst r2 \<Longrightarrow> distinct (map fst r1) \<Longrightarrow> (\<forall>k. dget r1 k = dget r2 k) \<Longrightarrow>
   r1 = r2"
proof (induction r1 arbitrary: r2)
  case Nil
  then show ?case by simp
next
  case (Cons kv r1)
  from Cons.prems(1) obtain kv' r2' where r2: "r2 = kv' # r2'" and f: "fst kv = fst kv'"
    and t: "map fst r1 = map fst r2'"
    by (cases r2) auto
  from Cons.prems(3) have "dget (kv # r1) (fst kv) = dget (kv' # r2') (fst kv)"
    by (simp add: r2)
  with f have v: "snd kv = snd kv'"
    by (cases kv; cases kv') (simp add: dget_def)
  have "dget r1 k = dget r2' k" for k
  proof (cases "k = fst kv")
    case True
    with Cons.prems(2) t have "k \<notin> fst ` set r1" "k \<notin> fst ` set r2'"
      by (auto simp flip: set_map)
    then show ?thesis
      by (simp add: dget_map_of_absent)
  next
    case False
    with Cons.prems(3) [rule_format, of k] f show ?thesis
      by (cases kv; cases kv') (simp add: dget_def r2)
  qed
  with Cons.IH [of r2'] t Cons.prems(2) have "r1 = r2'"
    by simp
  with f v show ?case
    by (simp add: r2 prod_eq_iff)
qed

lemma distinct_field_keys: "distinct (field_keys source_type)"
  by (simp add: field_keys_def screenshot_keys_def passbook_keys_def)

lemma parse_details_ext:
  "(\<forall>k. dget (parse_details it1 t1 f1 source_type) k = dget (parse_details it2 t2 f2 source_type) k)
   \<Longrightarrow> parse_details it1 t1 f1 source_type = parse_details it2 t2 f2 source_type"
  by (rule record_ext) (simp_all add: keys_parse_details distinct_field_keys)

text \<open>The heuristics read and write the three positional fields only.\<close>

lemma agree_heuristic_line:
  assumes "agree_on heuristic_keys d1 d2"
  shows "agree_on heuristic_keys (heuristic_line lines d1 il) (heuristic_line lines d2 il)"
proof -
  obtain i line where il: "il = (i, line)" by (cases il)
  from assms have b: "dget d1 (str ''Bank Name'') = dget d2 (str ''Bank Name'')"
    and r: "dget d1 (str ''To (Receiver)'') = dget d2 (str ''To (Receiver)'')"
    and s: "dget d1 (str ''From (Sender)'') = dget d2 (str ''From (Sender)'')"
    by (simp_all add: agree_on_def heuristic_keys_def)
  have 1: "dget (bank_step line d1) k = dget (bank_step line d2) k"
    if "dget d1 k = dget d2 k" for k
    using that b by (simp add: bank_step_def dget_dset)
  have 2: "dget (receiver_step lines i line e1) k = dget (receiver_step lines i line e2) k"
    if "dget e1 k = dget e2 k" "dget e1 (str ''To (Receiver)'') = dget e2 (str ''To (Receiver)'')"
    for k e1 e2
    using that by (simp add: receiver_step_def dget_dset Let_def)
  have 3: "dget (sender_step lines i line e1) k = dget (sender_step lines i line e2) k"
    if "dget e1 k = dget e2 k" "dget e1 (str ''From (Sender)'') = dget e2 (str ''From (Sender)'')"
    for k e1 e2
    using that by (simp add: sender_step_def dget_dset Let_def)
  have "dget (heuristic_line lines d1 il) k = dget (heuristic_line lines d2 il) k"
    if "k \<in> set heuristic_keys" for k
  proof -
    from that assms have k: "dget d1 k = dget d2 k"
      by (simp add: agree_on_def list_all_iff)
    show ?thesis
      unfolding heuristic_line_def il prod.case
      by (intro 3 2 1 k r s b)
  qed
  then show ?thesis
    by (simp add: agree_on_def list_all_iff)
qed

lemma agree_heuristic_foldl:
  "agree_on heuristic_keys d1 d2 \<Longrightarrow>
   agree_on heuristic_keys (foldl (heuristic_line lines) d1 ils)
     (foldl (heuristic_line lines) d2 ils)"
  by (induction ils arbitrary: d1 d2) (simp_all add: agree_heuristic_line)

lemma agree_heuristic_scan:
  "agree_on heuristic_keys d1 d2 \<Longrightarrow>
   agree_on heuristic_keys (heuristic_scan raw_text d1) (heuristic_scan raw_text d2)"
  by (simp add: heuristic_scan_def Let_def agree_heuristic_foldl)

lemma parse_details_non_id:
  assumes "k \<notin> set id_keys"
  shows "dget (parse_details it1 raw_text filename source_type) k
           = dget (parse_details it2 raw_text filename source_type) k"
proof (cases "source_type = str ''passbook''")
  case True
  then show ?thesis by (simp add: parse_details_def)
next
  case False
  let ?d1 = "foldl classify_txn (screenshot_inline raw_text filename) (it1 (all_ids raw_text))"
  let ?d2 = "foldl classify_txn (screenshot_inline raw_text filename) (it2 (all_ids raw_text))"
  have o: "dget ?d1 k' = dget ?d2 k'" if "k' \<notin> set id_keys" for k'
    using that by (simp add: dget_foldl_classify_other)
  show ?thesis
  proof (cases "k \<in> set heuristic_keys")
    case True
    have "k' \<notin> set id_keys" if "k' \<in> set heuristic_keys" for k'
      using that id_not_heuristic by blast
    then have "agree_on heuristic_keys ?d1 ?d2"
      by (simp add: agree_on_def list_all_iff o)
    from agree_heuristic_scan [OF this, of raw_text] True False show ?thesis
      by (simp add: parse_details_def agree_on_def list_all_iff)
  next
    case h: False
    with False assms o [of k] show ?thesis
      by (simp add: parse_details_def dget_heuristic_scan)
  qed
qed

end
